theory Spec2Isabelle
  imports Main "HOL-Library.Word" "HOL-Library.FSet"
begin

section \<open>Go basics\<close>

text \<open>
  Go's \<open>int\<close> is a two's complement machine integer, 64 bits wide on the 64-bit
  targets (amd64, arm64) and 32 bits wide on the 32-bit ones; \<open>+\<close> and \<open>++\<close> wrap
  around silently. The 64-bit \<open>int\<close> is modelled; \<open>sint\<close> reads the signed value.
  Errors are the package level sentinel values of the source.
\<close>

type_synonym go_int = "64 word"

datatype error = ErrorWaiterNotFound | ErrorServerNotSet | ErrorConnectionNotFound

text \<open>
  A panic ends the call (and, unrecovered, the program): dereferencing a nil pointer,
  or \<open>panic(err)\<close> with the error a callee returned.
\<close>

datatype panic = NilPointerDereference | PanicWith string

section \<open>ack.go: the ACK processor\<close>









section \<open>protocol: the constants and records the server uses\<close>

definition CONNECT :: go_int where
  "CONNECT = 0"

definition DefaultNsp :: string where
  "DefaultNsp = ''/''"

definition OpenMsg :: string where
  "OpenMsg = ''0''"

definition CommonMsg :: string where
  "CommonMsg = ''4''"

text \<open>
  \<open>MsgPack.Data\<close> is an \<open>interface{}\<close>; the server stores either nothing (the zero
  value nil) or the anonymous struct \<open>struct { Sid string }\<close>, tagged \<open>json:"sid"\<close>.
  The field \<open>Id\<close> is written \<open>Id'\<close>, the name \<open>Id\<close> being the identity relation of HOL.
\<close>

datatype data = DataNil | DataSid string

record MsgPack =
  Type :: go_int
  Data :: data
  Nsp :: string
  Id' :: go_int

section \<open>The data model: channels, servers and the store\<close>

text \<open>
  \<open>*Channel\<close> and \<open>*Server\<close> are pointers: channels are the keys of the room maps
  and many channels share one server. Both are addresses into an explicit store; a
  nil \<open>c.server\<close> is \<open>None\<close>. Every method takes the lock of the registry it touches
  for the whole of its body (\<open>channelsLock\<close>, \<open>sidsLock\<close>, \<open>counterLock\<close>), so a
  call is one step from store to store; the scheduling of goroutines is not modelled,
  a \<open>go\<close> statement is recorded as the goroutine it starts.
\<close>

type_synonym chan_ref = nat
type_synonym server_ref = nat

text \<open>The open header, with the fields \<open>SetupEventLoop\<close> fills in.\<close>

record Header =
  Sid :: string
  Upgrades :: "string list"
  PingInterval :: go_int
  PingTimeout :: go_int

text \<open>
  What travels on \<open>c.out\<close>: a ready frame (a string) or a \<open>*protocol.MsgPack\<close> the
  writer encodes. \<open>out\<close> is the FIFO of the items sent on the Go channel, oldest first.
  Of the fields of a channel, \<open>server\<close>, \<open>header\<close> and \<open>out\<close> are the ones the
  registry and the open sequence use; \<open>alive\<close> is the flag behind \<open>IsAlive\<close>.
\<close>

datatype out_item = Frame string | Pack MsgPack

record Channel =
  server :: "server_ref option"
  header :: Header
  out :: "out_item list"
  alive :: bool

text \<open>\<open>websocket.Transport\<close>: the one field the server reads.\<close>

record Transport =
  BinaryMessage :: bool

text \<open>
  \<open>map[string]map[*Channel]struct{}\<close> is a map from room names to sets of channels,
  \<open>map[*Channel]map[string]struct{}\<close> one from channels to sets of room names; a Go
  map is finite, so the sets are finite sets and \<open>len\<close> is \<open>fcard\<close>.
\<close>

record Server =
  headers :: "string \<rightharpoonup> string"
  channels :: "string \<rightharpoonup> chan_ref fset"
  rooms :: "chan_ref \<rightharpoonup> string fset"
  sids :: "string \<rightharpoonup> chan_ref"
  tr :: Transport

record World =
  chans :: "chan_ref \<Rightarrow> Channel"
  servers :: "server_ref \<Rightarrow> Server"

text \<open>
  Modelled from the spec: the method \<open>Channel.Id\<close>, whose declaration is in another
  file of the package. The spec gives a channel "a unique session id (sid ...)" and
  the open header the attribute sid, which the handshake sends twice ("sid equal"):
  \<open>Id\<close> returns the sid of the channel's header.
\<close>

definition Channel_Id :: "World \<Rightarrow> chan_ref \<Rightarrow> string" where
  "Channel_Id w c = Sid (header (chans w c))"

text \<open>
  Modelled from the spec: the method \<open>Channel.IsAlive\<close>, whose declaration is in
  another file of the package. The spec gives a channel "an alive flag", which
  \<open>IsAlive\<close> reads.
\<close>

definition IsAlive :: "World \<Rightarrow> chan_ref \<Rightarrow> bool" where
  "IsAlive w c = alive (chans w c)"

text \<open>
  \<open>NewServer\<close>: the server value the returned pointer refers to. The two hooks it
  installs, \<open>onConnectStore\<close> and \<open>onDisconnectCleanup\<close>, are called by the event
  loop, not by the functions below.
\<close>

definition NewServer :: "Transport \<Rightarrow> Server" where
  "NewServer t =
     \<lparr>headers = Map.empty, channels = Map.empty, rooms = Map.empty, sids = Map.empty, tr = t\<rparr>"

section \<open>The room registry: Join, Leave, onDisconnectCleanup\<close>

text \<open>
  \<open>Join\<close> and \<open>Leave\<close> return the error (\<open>None\<close> for nil) and the store after the
  call. The inner maps are created by \<open>make\<close> under one key each and never shared, so
  updating the set under its key is the mutation the source does through the reference.
\<close>

definition Join :: "chan_ref \<Rightarrow> string \<Rightarrow> World \<Rightarrow> error option \<times> World" where
  "Join c room w =
     (case server (chans w c) of
        None \<Rightarrow> (Some ErrorServerNotSet, w)
      | Some sp \<Rightarrow>
          let s = servers w sp;
              cn = channels s;
              cn = (if cn room = None then cn(room \<mapsto> {||}) else cn);
              byRoom = rooms s;
              byRoom = (if byRoom c = None then byRoom(c \<mapsto> {||}) else byRoom);
              cn = cn(room \<mapsto> finsert c (the (cn room)));
              byRoom = byRoom(c \<mapsto> finsert room (the (byRoom c)))
          in (None, w\<lparr>servers := (servers w)(sp := s\<lparr>channels := cn, rooms := byRoom\<rparr>)\<rparr>))"

definition Leave :: "chan_ref \<Rightarrow> string \<Rightarrow> World \<Rightarrow> error option \<times> World" where
  "Leave c room w =
     (case server (chans w c) of
        None \<Rightarrow> (Some ErrorServerNotSet, w)
      | Some sp \<Rightarrow>
          let s = servers w sp;
              cn = channels s;
              cn = (case cn room of
                      Some curRoom \<Rightarrow>
                        let curRoom = curRoom |-| {|c|}
                        in if fcard curRoom = 0 then cn(room := None) else cn(room \<mapsto> curRoom)
                    | None \<Rightarrow> cn);
              byRoom = rooms s;
              byRoom = (case byRoom c of
                          Some rs \<Rightarrow> byRoom(c \<mapsto> rs |-| {|room|})
                        | None \<Rightarrow> byRoom)
          in (None, w\<lparr>servers := (servers w)(sp := s\<lparr>channels := cn, rooms := byRoom\<rparr>)\<rparr>))"

text \<open>
  \<open>for k := range m\<close> visits the keys of a Go map in an order the runtime picks. The
  loops below take that order as the list \<open>ks\<close> of the keys visited; \<open>range_order\<close>
  says that a list is such an order for a set of keys.
\<close>

definition range_order :: "'k list \<Rightarrow> 'k fset \<Rightarrow> bool" where
  "range_order ks m = (distinct ks \<and> fset_of_list ks = m)"

text \<open>The body of the loop of \<open>onDisconnectCleanup\<close>, over the rooms in the order visited.\<close>

fun cleanup_rooms ::
  "chan_ref \<Rightarrow> string list \<Rightarrow> (string \<rightharpoonup> chan_ref fset) \<Rightarrow> (string \<rightharpoonup> chan_ref fset)" where
  "cleanup_rooms c [] cn = cn"
| "cleanup_rooms c (room # ks) cn =
     cleanup_rooms c ks
       (case cn room of
          Some curRoom \<Rightarrow>
            let curRoom = curRoom |-| {|c|}
            in if fcard curRoom = 0 then cn(room := None) else cn(room \<mapsto> curRoom)
        | None \<Rightarrow> cn)"

text \<open>\<open>go deleteSid(c)\<close> starts a goroutine; the call returns it with the store.\<close>

datatype spawned = GoDeleteSid chan_ref

definition onDisconnectCleanup ::
  "string list \<Rightarrow> chan_ref \<Rightarrow> World \<Rightarrow> panic + (World \<times> spawned list)" where
  "onDisconnectCleanup ks c w =
     (case server (chans w c) of
        None \<Rightarrow> Inl NilPointerDereference
      | Some sp \<Rightarrow>
          let s = servers w sp;
              cn = channels s
          in (case rooms s c of
                Some byRoom \<Rightarrow>
                  Inr (w\<lparr>servers := (servers w)(sp :=
                          s\<lparr>channels := cleanup_rooms c ks cn, rooms := (rooms s)(c := None)\<rparr>)\<rparr>,
                       [GoDeleteSid c])
              | None \<Rightarrow> Inr (w, [GoDeleteSid c])))"

definition deleteSid :: "chan_ref \<Rightarrow> World \<Rightarrow> panic + World" where
  "deleteSid c w =
     (case server (chans w c) of
        None \<Rightarrow> Inl NilPointerDereference
      | Some sp \<Rightarrow>
          let s = servers w sp
          in Inr (w\<lparr>servers := (servers w)(sp := s\<lparr>sids := (sids s)(Channel_Id w c := None)\<rparr>)\<rparr>))"

section \<open>Queries: Amount and List\<close>

definition Server_Amount :: "server_ref \<Rightarrow> string \<Rightarrow> World \<Rightarrow> go_int" where
  "Server_Amount s room w =
     (case channels (servers w s) room of
        None \<Rightarrow> 0
      | Some roomChannels \<Rightarrow> of_nat (fcard roomChannels))"

definition Channel_Amount :: "chan_ref \<Rightarrow> string \<Rightarrow> World \<Rightarrow> go_int" where
  "Channel_Amount c room w =
     (case server (chans w c) of
        None \<Rightarrow> 0
      | Some sp \<Rightarrow> Server_Amount sp room w)"

text \<open>
  \<open>Server.List\<close> fills a slice of \<open>len(roomChannels)\<close> nil pointers, one index per
  channel visited; the slice holds \<open>Some\<close> channel or \<open>None\<close> for nil.
\<close>

definition Server_List ::
  "chan_ref list \<Rightarrow> server_ref \<Rightarrow> string \<Rightarrow> World \<Rightarrow> chan_ref option list" where
  "Server_List ks s room w =
     (case channels (servers w s) room of
        None \<Rightarrow> []
      | Some roomChannels \<Rightarrow>
          fst (fold (\<lambda>channel (roomChannelsCopy, i). (roomChannelsCopy[i := Some channel], i + 1))
                 ks (replicate (fcard roomChannels) None, 0::nat)))"

definition Channel_List ::
  "chan_ref list \<Rightarrow> chan_ref \<Rightarrow> string \<Rightarrow> World \<Rightarrow> chan_ref option list" where
  "Channel_List ks c room w =
     (case server (chans w c) of
        None \<Rightarrow> []
      | Some sp \<Rightarrow> Server_List ks sp room w)"

section \<open>Broadcasts\<close>

text \<open>
  A broadcast reads the store and starts one goroutine \<open>go cn.Emit(method, args)\<close>
  per recipient; the call returns the goroutines it started, in the order started.
  \<open>args\<close> is an \<open>interface{}\<close>, any value.
\<close>

datatype 'a emission = GoEmit chan_ref string 'a

definition Channel_BroadcastTo ::
  "chan_ref list \<Rightarrow> chan_ref \<Rightarrow> string \<Rightarrow> string \<Rightarrow> 'a \<Rightarrow> World \<Rightarrow> 'a emission list" where
  "Channel_BroadcastTo ks c room method args w =
     (case server (chans w c) of
        None \<Rightarrow> []
      | Some sp \<Rightarrow>
          (case channels (servers w sp) room of
             None \<Rightarrow> []
           | Some roomChannels \<Rightarrow>
               fold (\<lambda>cn started.
                       if Channel_Id w cn \<noteq> Channel_Id w c \<and> IsAlive w cn
                       then started @ [GoEmit cn method args] else started)
                 ks []))"

definition Server_BroadcastTo ::
  "chan_ref list \<Rightarrow> server_ref \<Rightarrow> string \<Rightarrow> string \<Rightarrow> 'a \<Rightarrow> World \<Rightarrow> 'a emission list" where
  "Server_BroadcastTo ks s room method args w =
     (case channels (servers w s) room of
        None \<Rightarrow> []
      | Some roomChannels \<Rightarrow>
          fold (\<lambda>cn started.
                  if IsAlive w cn then started @ [GoEmit cn method args] else started)
            ks [])"

text \<open>\<open>for _, cn := range s.sids\<close>: \<open>ks\<close> are the sids visited, \<open>cn\<close> the channel under each.\<close>

definition BroadcastToAll ::
  "string list \<Rightarrow> server_ref \<Rightarrow> string \<Rightarrow> 'a \<Rightarrow> World \<Rightarrow> 'a emission list" where
  "BroadcastToAll ks s method args w =
     fold (\<lambda>k started.
             case sids (servers w s) k of
               None \<Rightarrow> started
             | Some cn \<Rightarrow>
                 if IsAlive w cn then started @ [GoEmit cn method args] else started)
       ks []"

section \<open>The open sequence\<close>

text \<open>
  \<open>utils.Json.Marshal\<close> belongs to a JSON library outside the repository: it is a
  parameter, from the value marshalled (the open header, or the struct
  \<open>struct { Sid string }\<close> tagged \<open>json:"sid"\<close>, the JSON object with the one key \<open>sid\<close>) to the
  text, or to the error the source panics with. A panic is the result of the call;
  the store it leaves behind is not returned.
\<close>

datatype json_value = JsonHeader Header | JsonSid string

type_synonym marshaller = "json_value \<Rightarrow> string + string"

text \<open>\<open>c.out <- x\<close>: the item joins the end of the channel's queue.\<close>

definition send_out :: "chan_ref \<Rightarrow> out_item \<Rightarrow> World \<Rightarrow> World" where
  "send_out c x w = w\<lparr>chans := (chans w)(c := (chans w c)\<lparr>out := out (chans w c) @ [x]\<rparr>)\<rparr>"

definition SendOpenSequence ::
  "marshaller \<Rightarrow> server_ref \<Rightarrow> chan_ref \<Rightarrow> World \<Rightarrow> panic + World" where
  "SendOpenSequence Marshal s c w =
     (case Marshal (JsonHeader (header (chans w c))) of
        Inl err \<Rightarrow> Inl (PanicWith err)
      | Inr jsonHdr \<Rightarrow>
          let w = send_out c (Frame (OpenMsg @ jsonHdr)) w
          in if BinaryMessage (tr (servers w s))
             then Inr (send_out c
                        (Pack \<lparr>Type = CONNECT, Data = DataSid (Channel_Id w c),
                               Nsp = DefaultNsp, Id' = 0\<rparr>) w)
             else (case Marshal (JsonSid (Channel_Id w c)) of
                     Inl err \<Rightarrow> Inl (PanicWith err)
                   | Inr marshal \<Rightarrow>
                       Inr (send_out c (Frame (CommonMsg @ OpenMsg @ marshal)) w)))"

section \<open>Response headers\<close>

definition EnableCORS :: "server_ref \<Rightarrow> string \<Rightarrow> World \<Rightarrow> World" where
  "EnableCORS s domain w =
     (let srv = servers w s;
          srv = srv\<lparr>headers := (headers srv)(''Access-Control-Allow-Origin'' \<mapsto> domain)\<rparr>;
          srv = srv\<lparr>headers := (headers srv)(''Access-Control-Allow-Credentials'' \<mapsto> ''true'')\<rparr>
      in w\<lparr>servers := (servers w)(s := srv)\<rparr>)"

definition AddHeader :: "server_ref \<Rightarrow> string \<Rightarrow> string \<Rightarrow> World \<Rightarrow> World" where
  "AddHeader s name v w =
     (let srv = servers w s
      in w\<lparr>servers := (servers w)(s := srv\<lparr>headers := (headers srv)(name \<mapsto> v)\<rparr>)\<rparr>)"

section \<open>Sequences of registry calls, and the properties of a registry\<close>

text \<open>
  A call of the registry: a join, a leave, or a disconnect cleanup together with the
  order in which its loop visits the rooms of the channel. \<open>run\<close> makes the calls one
  after the other; a panic ends the run.
\<close>

datatype call = CallJoin chan_ref string | CallLeave chan_ref string | CallCleanup chan_ref "string list"

fun run :: "call list \<Rightarrow> World \<Rightarrow> panic + World" where
  "run [] w = Inr w"
| "run (CallJoin c room # cs) w = run cs (snd (Join c room w))"
| "run (CallLeave c room # cs) w = run cs (snd (Leave c room w))"
| "run (CallCleanup c ks # cs) w =
     (case onDisconnectCleanup ks c w of
        Inl p \<Rightarrow> Inl p
      | Inr (w', _) \<Rightarrow> run cs w')"

text \<open>
  \<open>orders_ok\<close>: at every cleanup of the run, the list given is an order in which
  \<open>range\<close> can visit the rooms the channel is recorded in at that moment.
\<close>

definition cleanup_order_ok :: "string list \<Rightarrow> chan_ref \<Rightarrow> World \<Rightarrow> bool" where
  "cleanup_order_ok ks c w =
     (case server (chans w c) of
        None \<Rightarrow> True
      | Some sp \<Rightarrow>
          (case rooms (servers w sp) c of
             None \<Rightarrow> True
           | Some byRoom \<Rightarrow> range_order ks byRoom))"

fun orders_ok :: "call list \<Rightarrow> World \<Rightarrow> bool" where
  "orders_ok [] w = True"
| "orders_ok (CallJoin c room # cs) w = orders_ok cs (snd (Join c room w))"
| "orders_ok (CallLeave c room # cs) w = orders_ok cs (snd (Leave c room w))"
| "orders_ok (CallCleanup c ks # cs) w =
     (cleanup_order_ok ks c w \<and>
      (case onDisconnectCleanup ks c w of
         Inl p \<Rightarrow> True
       | Inr (w', _) \<Rightarrow> orders_ok cs w'))"

text \<open>Membership as each of the two maps of a server records it.\<close>

definition in_channels :: "Server \<Rightarrow> string \<Rightarrow> chan_ref \<Rightarrow> bool" where
  "in_channels s R C = (case channels s R of None \<Rightarrow> False | Some m \<Rightarrow> C |\<in>| m)"

definition in_rooms :: "Server \<Rightarrow> chan_ref \<Rightarrow> string \<Rightarrow> bool" where
  "in_rooms s C R = (case rooms s C of None \<Rightarrow> False | Some rs \<Rightarrow> R |\<in>| rs)"

definition bimap :: "Server \<Rightarrow> bool" where
  "bimap s = (\<forall>R C. in_channels s R C = in_rooms s C R)"

definition no_empty_bucket :: "Server \<Rightarrow> bool" where
  "no_empty_bucket s = (\<forall>R. channels s R \<noteq> Some {||})"

section \<open>A scenario\<close>

text \<open>
  The setting of the spec's scenarios S3 and S4: one text-mode server at address 0
  and the channels A, B, C (alive) and D (no longer alive) attached to it, at the
  addresses 1 to 4; every other address holds a detached channel, the zero value.
\<close>

definition detached :: Channel where
  "detached =
     \<lparr>server = None,
      header = \<lparr>Sid = [], Upgrades = [], PingInterval = 0, PingTimeout = 0\<rparr>,
      out = [], alive = False\<rparr>"

definition peer :: "string \<Rightarrow> bool \<Rightarrow> Channel" where
  "peer sid a =
     \<lparr>server = Some 0,
      header = \<lparr>Sid = sid, Upgrades = [], PingInterval = 25000, PingTimeout = 20000\<rparr>,
      out = [], alive = a\<rparr>"

definition scenario :: World where
  "scenario =
     \<lparr>chans = (\<lambda>_. detached)
        (1 := peer ''A'' True, 2 := peer ''B'' True, 3 := peer ''C'' True, 4 := peer ''D'' False),
      servers = (\<lambda>_. (NewServer \<lparr>BinaryMessage = False\<rparr>)
        \<lparr>sids := [''A'' \<mapsto> 1, ''B'' \<mapsto> 2, ''C'' \<mapsto> 3, ''D'' \<mapsto> 4]\<rparr>)\<rparr>"

text \<open>All four channels join the room \<open>r\<close>.\<close>

definition joined :: World where
  "joined = snd (Join 4 ''r'' (snd (Join 3 ''r'' (snd (Join 2 ''r'' (snd (Join 1 ''r'' scenario)))))))"

text \<open>Channels 1 and 2 join the rooms \<open>r1\<close> and \<open>r2\<close>; then 1 leaves \<open>r1\<close> and 2 disconnects.\<close>

definition churn :: "call list" where
  "churn =
     [CallJoin 1 ''r1'', CallJoin 2 ''r1'', CallJoin 1 ''r2'', CallJoin 2 ''r2'',
      CallLeave 1 ''r1'', CallCleanup 2 [''r2'', ''r1'']]"

text \<open>
  A marshaller that is right on the headers of the scenario (no upgrades, intervals
  25000 and 20000, sids that need no escaping): the frames of the spec's scenario S1.
\<close>

fun s1_Marshal :: marshaller where
  \<open>s1_Marshal (JsonHeader h) =
     Inr (''{"sid":"'' @ Sid h @ ''","upgrades":[],"pingInterval":25000,"pingTimeout":20000}'')\<close>
| \<open>s1_Marshal (JsonSid sid) = Inr (''{"sid":"'' @ sid @ ''"}'')\<close>

text \<open>The same scenario on a transport in binary mode.\<close>

definition binary_scenario :: World where
  "binary_scenario = scenario\<lparr>servers := (\<lambda>_. NewServer \<lparr>BinaryMessage = True\<rparr>)\<rparr>"

section \<open>Properties\<close>

subsection \<open>The ACK processor\<close>










subsection \<open>The room registry\<close>

text \<open>
  Every set of keys has an order in which \<open>range\<close> can visit it. The loop of the
  cleanup, in closed form: visiting a room twice changes nothing more.
\<close>

lemma range_order_exists: "\<exists>ks. range_order ks m"
proof -
  obtain ks where ks: "set ks = fset m" "distinct ks"
    using finite_distinct_list [of "fset m"] by auto
  from ks(1) have "fset (fset_of_list ks) = fset m"
    by (simp add: fset_of_list.rep_eq)
  then have "fset_of_list ks = m"
    by (simp only: fset_inject)
  with ks(2) have "range_order ks m"
    by (simp add: range_order_def)
  then show ?thesis ..
qed

lemma cleanup_rooms_apply:
  "cleanup_rooms c ks cn r =
     (if r \<in> set ks
      then (case cn r of
              None \<Rightarrow> None
            | Some m \<Rightarrow> if m |-| {|c|} = {||} then None else Some (m |-| {|c|}))
      else cn r)"
  by (induction ks arbitrary: cn) (auto simp: Let_def split: option.splits)

text \<open>A call on a channel of another server, or on a detached one, leaves a server as it is.\<close>

lemma Join_other:
  "server (chans w c) \<noteq> Some sp \<Longrightarrow> servers (snd (Join c room w)) sp = servers w sp"
  by (simp add: Join_def Let_def split: option.splits)

lemma Leave_other:
  "server (chans w c) \<noteq> Some sp \<Longrightarrow> servers (snd (Leave c room w)) sp = servers w sp"
  by (simp add: Leave_def Let_def split: option.splits)

lemma Cleanup_other:
  "onDisconnectCleanup ks c w = Inr (w', g) \<Longrightarrow> server (chans w c) \<noteq> Some sp \<Longrightarrow>
   servers w' sp = servers w sp"
  by (auto simp: onDisconnectCleanup_def Let_def split: option.splits)

text \<open>What each call does to the two membership relations of the channel's server.\<close>

lemma Join_in_channels:
  "server (chans w c) = Some sp \<Longrightarrow>
   in_channels (servers (snd (Join c room w)) sp) R C =
     (in_channels (servers w sp) R C \<or> (R = room \<and> C = c))"
  by (auto simp: Join_def Let_def in_channels_def split: option.splits)

lemma Join_in_rooms:
  "server (chans w c) = Some sp \<Longrightarrow>
   in_rooms (servers (snd (Join c room w)) sp) C R =
     (in_rooms (servers w sp) C R \<or> (R = room \<and> C = c))"
  by (auto simp: Join_def Let_def in_rooms_def split: option.splits)

lemma Leave_in_channels:
  "server (chans w c) = Some sp \<Longrightarrow>
   in_channels (servers (snd (Leave c room w)) sp) R C =
     (in_channels (servers w sp) R C \<and> \<not> (R = room \<and> C = c))"
  by (auto simp: Leave_def Let_def in_channels_def split: option.splits)

lemma Leave_in_rooms:
  "server (chans w c) = Some sp \<Longrightarrow>
   in_rooms (servers (snd (Leave c room w)) sp) C R =
     (in_rooms (servers w sp) C R \<and> \<not> (R = room \<and> C = c))"
  by (auto simp: Leave_def Let_def in_rooms_def split: option.splits)

lemma Cleanup_in_channels:
  "onDisconnectCleanup ks c w = Inr (w', g) \<Longrightarrow> server (chans w c) = Some sp \<Longrightarrow>
   rooms (servers w sp) c \<noteq> None \<Longrightarrow>
   in_channels (servers w' sp) R C =
     (in_channels (servers w sp) R C \<and> \<not> (C = c \<and> R \<in> set ks))"
  by (auto simp: onDisconnectCleanup_def Let_def in_channels_def cleanup_rooms_apply
           split: option.splits if_splits)

lemma Cleanup_in_rooms:
  "onDisconnectCleanup ks c w = Inr (w', g) \<Longrightarrow> server (chans w c) = Some sp \<Longrightarrow>
   in_rooms (servers w' sp) C R = (in_rooms (servers w sp) C R \<and> C \<noteq> c)"
  by (auto simp: onDisconnectCleanup_def Let_def in_rooms_def split: option.splits if_splits)

lemma Cleanup_unrecorded:
  "onDisconnectCleanup ks c w = Inr (w', g) \<Longrightarrow> server (chans w c) = Some sp \<Longrightarrow>
   rooms (servers w sp) c = None \<Longrightarrow> w' = w"
  by (auto simp: onDisconnectCleanup_def Let_def split: option.splits)

text \<open>Each call keeps the two maps of every server mirrored.\<close>

lemma Join_bimap: "bimap (servers w sp) \<Longrightarrow> bimap (servers (snd (Join c room w)) sp)"
  by (cases "server (chans w c) = Some sp")
     (auto simp: bimap_def Join_in_channels Join_in_rooms Join_other)

lemma Leave_bimap: "bimap (servers w sp) \<Longrightarrow> bimap (servers (snd (Leave c room w)) sp)"
  by (cases "server (chans w c) = Some sp")
     (auto simp: bimap_def Leave_in_channels Leave_in_rooms Leave_other)

lemma Cleanup_bimap:
  assumes "bimap (servers w sp)" and "cleanup_order_ok ks c w"
    and "onDisconnectCleanup ks c w = Inr (w', g)"
  shows "bimap (servers w' sp)"
proof (cases "server (chans w c) = Some sp")
  case False
  with assms show ?thesis by (simp add: Cleanup_other)
next
  case att: True
  show ?thesis
  proof (cases "rooms (servers w sp) c")
    case None
    from Cleanup_unrecorded [OF assms(3) att None] assms(1) show ?thesis by simp
  next
    case (Some byRoom)
    with assms(2) att have ks: "set ks = fset byRoom"
      by (auto simp: cleanup_order_ok_def range_order_def fset_of_list.rep_eq)
    have "in_channels (servers w sp) R c \<Longrightarrow> R \<in> set ks" for R
      using assms(1) Some ks by (auto simp: bimap_def in_rooms_def)
    then show ?thesis
      using assms(1) Some att
      by (auto simp: bimap_def Cleanup_in_channels [OF assms(3) att]
            Cleanup_in_rooms [OF assms(3) att])
  qed
qed

lemma run_bimap:
  "bimap (servers w sp) \<Longrightarrow> orders_ok cs w \<Longrightarrow> run cs w = Inr w' \<Longrightarrow> bimap (servers w' sp)"
proof (induction cs w rule: run.induct)
  case (1 w)
  then show ?case by simp
next
  case (2 c room cs w)
  then show ?case by (simp add: Join_bimap)
next
  case (3 c room cs w)
  then show ?case by (simp add: Leave_bimap)
next
  case (4 c ks cs w)
  then show ?case by (auto split: sum.splits dest: Cleanup_bimap)
qed

lemma NewServer_bimap: "bimap (NewServer t)"
  by (simp add: bimap_def NewServer_def in_channels_def in_rooms_def)

text \<open>Each call leaves no empty bucket behind, whatever the order of the cleanup's loop.\<close>

lemma Join_no_empty:
  "no_empty_bucket (servers w sp) \<Longrightarrow> no_empty_bucket (servers (snd (Join c room w)) sp)"
  by (auto simp: no_empty_bucket_def Join_def Let_def split: option.splits)

lemma Leave_no_empty:
  "no_empty_bucket (servers w sp) \<Longrightarrow> no_empty_bucket (servers (snd (Leave c room w)) sp)"
  by (auto simp: no_empty_bucket_def Leave_def Let_def split: option.splits)

lemma Cleanup_no_empty:
  "no_empty_bucket (servers w sp) \<Longrightarrow> onDisconnectCleanup ks c w = Inr (w', g) \<Longrightarrow>
   no_empty_bucket (servers w' sp)"
  by (auto simp: no_empty_bucket_def onDisconnectCleanup_def Let_def cleanup_rooms_apply
           split: option.splits if_splits)

lemma run_no_empty:
  "no_empty_bucket (servers w sp) \<Longrightarrow> run cs w = Inr w' \<Longrightarrow> no_empty_bucket (servers w' sp)"
proof (induction cs w rule: run.induct)
  case (1 w)
  then show ?case by simp
next
  case (2 c room cs w)
  then show ?case by (simp add: Join_no_empty)
next
  case (3 c room cs w)
  then show ?case by (simp add: Leave_no_empty)
next
  case (4 c ks cs w)
  then show ?case by (auto split: sum.splits dest: Cleanup_no_empty)
qed

lemma NewServer_no_empty: "no_empty_bucket (NewServer t)"
  by (simp add: no_empty_bucket_def NewServer_def)

lemma bucket_iff_member:
  "no_empty_bucket s \<Longrightarrow> (channels s R \<noteq> None) = (\<exists>C. in_channels s R C)"
  by (auto simp: no_empty_bucket_def in_channels_def ex_fin_conv split: option.splits)

text \<open>Evaluating the scenario.\<close>

lemmas scenario_defs =
  scenario_def binary_scenario_def joined_def churn_def peer_def detached_def NewServer_def
  Join_def Leave_def onDisconnectCleanup_def cleanup_order_ok_def range_order_def Let_def

lemma churn_orders_ok: "orders_ok churn scenario"
  by (simp add: scenario_defs)

lemma churn_runs: "\<exists>w. run churn scenario = Inr w"
  by (simp add: scenario_defs)

text \<open>
  C1: the registries \<open>NewServer\<close> creates are mirrored, \<open>C\<close> is in \<open>channels[R]\<close> if
  and only if \<open>R\<close> is in \<open>rooms[C]\<close> for every room \<open>R\<close> and channel \<open>C\<close>, and every
  sequence of \<open>Join\<close>, \<open>Leave\<close> and \<open>onDisconnectCleanup\<close> calls, on any channels,
  that starts from mirrored registries ends in mirrored registries; the loop of a
  cleanup visits the rooms recorded for its channel, in any order (\<open>orders_ok\<close>).
\<close>

theorem registry_bimap:
  "bimap (NewServer t) \<and>
   (bimap (servers w0 sp) \<and> orders_ok cs w0 \<and> run cs w0 = Inr w \<longrightarrow> bimap (servers w sp))"
  using NewServer_bimap run_bimap by blast

theorem registry_bimap_churn:
  "bimap (servers scenario 0) \<and> orders_ok churn scenario \<and>
   (\<exists>w. run churn scenario = Inr w \<and> bimap (servers w 0))"
proof -
  have start: "bimap (servers scenario 0)"
    by (simp add: scenario_def bimap_def in_channels_def in_rooms_def NewServer_def)
  from churn_runs obtain w where w: "run churn scenario = Inr w" ..
  from registry_bimap [of _ scenario 0 churn w] start churn_orders_ok w
  have "bimap (servers w 0)" by blast
  with start churn_orders_ok w show ?thesis by blast
qed

text \<open>
  C2: the registries \<open>NewServer\<close> creates hold no empty bucket, and after every
  sequence of \<open>Join\<close>, \<open>Leave\<close> and \<open>onDisconnectCleanup\<close> calls that starts without
  an empty bucket no room of \<open>channels\<close> has the empty set: a room is a key of
  the map if and only if it has a member.
\<close>

theorem empty_buckets_pruned:
  "no_empty_bucket (NewServer t) \<and>
   (no_empty_bucket (servers w0 sp) \<and> run cs w0 = Inr w \<longrightarrow>
      no_empty_bucket (servers w sp) \<and>
      (\<forall>R. (channels (servers w sp) R \<noteq> None) = (\<exists>C. in_channels (servers w sp) R C)))"
  using NewServer_no_empty run_no_empty bucket_iff_member by blast

theorem empty_buckets_pruned_churn:
  "no_empty_bucket (servers scenario 0) \<and>
   (\<exists>w. run churn scenario = Inr w \<and> no_empty_bucket (servers w 0) \<and>
        channels (servers w 0) ''r1'' = None \<and> channels (servers w 0) ''r2'' = Some {|1|})"
proof -
  have start: "no_empty_bucket (servers scenario 0)"
    by (simp add: scenario_def no_empty_bucket_def NewServer_def)
  from churn_runs obtain w where w: "run churn scenario = Inr w" ..
  from empty_buckets_pruned [of _ scenario 0 churn w] start w
  have pruned: "no_empty_bucket (servers w 0)" by blast
  from w have "channels (servers w 0) ''r1'' = None \<and> channels (servers w 0) ''r2'' = Some {|1|}"
    by (auto simp: scenario_defs)
  with start pruned w show ?thesis by blast
qed

text \<open>
  C5: on a channel whose \<open>server\<close> is nil, \<open>Join\<close> and \<open>Leave\<close> return
  \<open>ErrorServerNotSet\<close> for every room and leave the whole store as it was.
\<close>

theorem detached_Join_Leave:
  "server (chans w c) = None \<Longrightarrow>
   Join c room w = (Some ErrorServerNotSet, w) \<and> Leave c room w = (Some ErrorServerNotSet, w)"
  by (simp add: Join_def Leave_def)

theorem detached_Join_Leave_at_7:
  "server (chans scenario 7) = None \<and>
   Join 7 ''r'' scenario = (Some ErrorServerNotSet, scenario) \<and>
   Leave 7 ''r'' scenario = (Some ErrorServerNotSet, scenario)"
proof -
  have nil: "server (chans scenario 7) = None"
    by (simp add: scenario_def detached_def)
  from nil detached_Join_Leave [OF nil, of "''r''"] show ?thesis by simp
qed

subsection \<open>Queries and broadcasts\<close>

text \<open>The loops of the broadcasts, in closed form.\<close>

lemma fold_started:
  "fold (\<lambda>x started. if P x then started @ [f x] else started) ks acc =
     acc @ map f (filter P ks)"
  by (induction ks arbitrary: acc) simp_all

lemma Channel_BroadcastTo_eq:
  "server (chans w c) = Some sp \<Longrightarrow> channels (servers w sp) room = Some m \<Longrightarrow>
   Channel_BroadcastTo ks c room method args w =
     map (\<lambda>cn. GoEmit cn method args)
       (filter (\<lambda>cn. Channel_Id w cn \<noteq> Channel_Id w c \<and> IsAlive w cn) ks)"
  by (simp add: Channel_BroadcastTo_def fold_started)

lemma BroadcastToAll_eq:
  "BroadcastToAll ks s method args w =
     concat (map (\<lambda>k. case sids (servers w s) k of
                         None \<Rightarrow> []
                       | Some cn \<Rightarrow> if IsAlive w cn then [GoEmit cn method args] else []) ks)"
proof -
  have "fold (\<lambda>k started.
             case sids (servers w s) k of
               None \<Rightarrow> started
             | Some cn \<Rightarrow>
                 if IsAlive w cn then started @ [GoEmit cn method args] else started) ks acc =
        acc @ concat (map (\<lambda>k. case sids (servers w s) k of
                         None \<Rightarrow> []
                       | Some cn \<Rightarrow> if IsAlive w cn then [GoEmit cn method args] else []) ks)"
    for acc
    by (induction ks arbitrary: acc) (simp_all split: option.splits)
  then show ?thesis by (simp add: BroadcastToAll_def)
qed

lemma joined_r: "channels (servers joined 0) ''r'' = Some {|4, 3, 2, 1|}"
  by (simp add: scenario_defs)

lemma joined_chans: "chans joined = chans scenario"
  by (simp add: scenario_defs)

lemma joined_sids: "sids (servers joined 0) = [''A'' \<mapsto> 1, ''B'' \<mapsto> 2, ''C'' \<mapsto> 3, ''D'' \<mapsto> 4]"
  by (simp add: scenario_defs)

text \<open>
  C6: \<open>BroadcastTo\<close> of an attached channel \<open>c\<close> starts nothing when the room has no
  bucket; otherwise, whatever the order \<open>ks\<close> in which the loop visits the members,
  it starts one emission of \<open>method\<close> and \<open>args\<close> for each member that is alive and
  whose \<open>Id()\<close> differs from \<open>c.Id()\<close>, and no other. No emission goes to \<open>c\<close>.
\<close>

theorem BroadcastTo_excludes_sender:
  assumes "server (chans w c) = Some sp"
  shows "(channels (servers w sp) room = None \<longrightarrow>
            Channel_BroadcastTo ks c room method args w = []) \<and>
         (\<forall>m. channels (servers w sp) room = Some m \<and> range_order ks m \<longrightarrow>
            set (Channel_BroadcastTo ks c room method args w) =
              {GoEmit cn method args | cn.
                 cn |\<in>| m \<and> IsAlive w cn \<and> Channel_Id w cn \<noteq> Channel_Id w c} \<and>
            distinct (Channel_BroadcastTo ks c room method args w)) \<and>
         (\<forall>method' args'.
            GoEmit c method' args' \<notin> set (Channel_BroadcastTo ks c room method args w))"
proof (intro conjI allI impI)
  assume "channels (servers w sp) room = None"
  with assms show "Channel_BroadcastTo ks c room method args w = []"
    by (simp add: Channel_BroadcastTo_def)
next
  fix m assume m: "channels (servers w sp) room = Some m \<and> range_order ks m"
  then have ks: "set ks = fset m" "distinct ks"
    by (auto simp: range_order_def fset_of_list.rep_eq)
  from m ks show "set (Channel_BroadcastTo ks c room method args w) =
      {GoEmit cn method args | cn.
         cn |\<in>| m \<and> IsAlive w cn \<and> Channel_Id w cn \<noteq> Channel_Id w c}"
    by (auto simp: Channel_BroadcastTo_eq [OF assms])
  from m ks show "distinct (Channel_BroadcastTo ks c room method args w)"
    by (simp add: Channel_BroadcastTo_eq [OF assms] distinct_map inj_on_def)
next
  fix method' args'
  show "GoEmit c method' args' \<notin> set (Channel_BroadcastTo ks c room method args w)"
    using assms by (auto simp: Channel_BroadcastTo_def fold_started split: option.splits)
qed

theorem BroadcastTo_S3:
  "server (chans joined 1) = Some 0 \<and>
   channels (servers joined 0) ''r'' = Some {|4, 3, 2, 1|} \<and>
   range_order [1, 2, 3, 4] {|4, 3, 2, 1::nat|} \<and>
   Channel_BroadcastTo [1, 2, 3, 4] 1 ''r'' ''x'' [''a''] joined =
     [GoEmit 2 ''x'' [''a''], GoEmit 3 ''x'' [''a'']] \<and>
   set (Channel_BroadcastTo [1, 2, 3, 4] 1 ''r'' ''x'' [''a''] joined) =
     {GoEmit cn ''x'' [''a''] | cn.
        cn |\<in>| {|4, 3, 2, 1|} \<and> IsAlive joined cn \<and> Channel_Id joined cn \<noteq> Channel_Id joined 1} \<and>
   GoEmit 1 ''x'' [''a''] \<notin> set (Channel_BroadcastTo [1, 2, 3, 4] 1 ''r'' ''x'' [''a''] joined) \<and>
   channels (servers joined 0) ''q'' = None \<and>
   Channel_BroadcastTo [] 1 ''q'' ''x'' [''a''] joined = []"
proof -
  have att: "server (chans joined 1) = Some 0"
    by (simp add: joined_chans scenario_def peer_def)
  have ord: "range_order [1, 2, 3, 4] {|4, 3, 2, 1::nat|}"
    by (auto simp: range_order_def)
  have q: "channels (servers joined 0) ''q'' = None"
    by (simp add: scenario_defs)
  have ev: "Channel_BroadcastTo [1, 2, 3, 4] 1 ''r'' ''x'' [''a''] joined =
     [GoEmit 2 ''x'' [''a''], GoEmit 3 ''x'' [''a'']]"
    by (simp add: Channel_BroadcastTo_def att joined_r Channel_Id_def IsAlive_def joined_chans
          scenario_def peer_def)
  note bc = BroadcastTo_excludes_sender [OF att, of _ _ "''x''" "[''a'']"]
  from bc [of "''r''" "[1, 2, 3, 4]"] joined_r ord
  have s: "set (Channel_BroadcastTo [1, 2, 3, 4] 1 ''r'' ''x'' [''a''] joined) =
     {GoEmit cn ''x'' [''a''] | cn.
        cn |\<in>| {|4, 3, 2, 1|} \<and> IsAlive joined cn \<and> Channel_Id joined cn \<noteq> Channel_Id joined 1}"
    by blast
  from bc [of "''r''" "[1, 2, 3, 4]"]
  have n: "GoEmit 1 ''x'' [''a''] \<notin> set (Channel_BroadcastTo [1, 2, 3, 4] 1 ''r'' ''x'' [''a''] joined)"
    by blast
  from bc [of "''q''" "[]"] q
  have e: "Channel_BroadcastTo [] 1 ''q'' ''x'' [''a''] joined = []"
    by blast
  from att joined_r ord ev s n q e show ?thesis by blast
qed

text \<open>
  C7: in \<open>Channel.BroadcastTo\<close>, \<open>Server.BroadcastTo\<close> and \<open>Server.BroadcastToAll\<close>
  an emission is started for a channel only if its \<open>IsAlive()\<close> holds in the store
  the call reads, whatever keys the loop visits.
\<close>

theorem broadcasts_only_to_alive:
  "(GoEmit cn m a \<in> set (Channel_BroadcastTo ks c room method args w) \<longrightarrow> IsAlive w cn) \<and>
   (GoEmit cn m a \<in> set (Server_BroadcastTo ks s room method args w) \<longrightarrow> IsAlive w cn) \<and>
   (GoEmit cn m a \<in> set (BroadcastToAll sks s method args w) \<longrightarrow> IsAlive w cn)"
proof (intro conjI impI)
  assume "GoEmit cn m a \<in> set (Channel_BroadcastTo ks c room method args w)"
  then show "IsAlive w cn"
    by (auto simp: Channel_BroadcastTo_def fold_started split: option.splits)
next
  assume "GoEmit cn m a \<in> set (Server_BroadcastTo ks s room method args w)"
  then show "IsAlive w cn"
    by (auto simp: Server_BroadcastTo_def fold_started split: option.splits)
next
  assume "GoEmit cn m a \<in> set (BroadcastToAll sks s method args w)"
  then show "IsAlive w cn"
    by (auto simp: BroadcastToAll_eq split: option.splits if_splits)
qed

lemmas alive_defs = Channel_Id_def IsAlive_def joined_chans scenario_def peer_def

theorem broadcasts_only_to_alive_S3:
  "Channel_BroadcastTo [4, 3, 2, 1] 1 ''r'' ''x'' [''a''] joined =
     [GoEmit 3 ''x'' [''a''], GoEmit 2 ''x'' [''a'']] \<and>
   Server_BroadcastTo [4, 3, 2, 1] 0 ''r'' ''x'' [''a''] joined =
     [GoEmit 3 ''x'' [''a''], GoEmit 2 ''x'' [''a''], GoEmit 1 ''x'' [''a'']] \<and>
   BroadcastToAll [''D'', ''C'', ''B'', ''A''] 0 ''x'' [''a''] joined =
     [GoEmit 3 ''x'' [''a''], GoEmit 2 ''x'' [''a''], GoEmit 1 ''x'' [''a'']] \<and>
   IsAlive joined 3 \<and> \<not> IsAlive joined 4"
proof -
  have c: "Channel_BroadcastTo [4, 3, 2, 1] 1 ''r'' ''x'' [''a''] joined =
     [GoEmit 3 ''x'' [''a''], GoEmit 2 ''x'' [''a'']]"
    by (simp add: Channel_BroadcastTo_def joined_r alive_defs)
  have s: "Server_BroadcastTo [4, 3, 2, 1] 0 ''r'' ''x'' [''a''] joined =
     [GoEmit 3 ''x'' [''a''], GoEmit 2 ''x'' [''a''], GoEmit 1 ''x'' [''a'']]"
    by (simp add: Server_BroadcastTo_def joined_r alive_defs)
  have b: "BroadcastToAll [''D'', ''C'', ''B'', ''A''] 0 ''x'' [''a''] joined =
     [GoEmit 3 ''x'' [''a''], GoEmit 2 ''x'' [''a''], GoEmit 1 ''x'' [''a'']]"
    by (simp add: BroadcastToAll_def joined_sids alive_defs)
  have d: "\<not> IsAlive joined 4"
    by (simp add: alive_defs)
  from broadcasts_only_to_alive
      [of 3 "''x''" "[''a'']" "[4, 3, 2, 1]" 1 "''r''" "''x''" "[''a'']" joined 0
        "[''D'', ''C'', ''B'', ''A'']"] c s b
  have "IsAlive joined 3" by simp
  with c s b d show ?thesis by blast
qed

text \<open>
  C10: on a channel whose \<open>server\<close> is nil, \<open>Amount\<close> returns 0, \<open>List\<close> the empty
  slice and \<open>BroadcastTo\<close> starts nothing, for every room; none of them reports an
  error (their results have no error part, unlike those of \<open>Join\<close> and \<open>Leave\<close>).
\<close>

theorem detached_queries_silent: "server (chans w c) = None \<Longrightarrow>
   Channel_Amount c room w = 0 \<and> Channel_List ks c room w = [] \<and>
   Channel_BroadcastTo ks c room method args w = []"
  by (simp add: Channel_Amount_def Channel_List_def Channel_BroadcastTo_def)

theorem detached_queries_silent_at_7:
  "server (chans joined 7) = None \<and>
   Channel_Amount 7 ''r'' joined = 0 \<and> Channel_List [4, 3, 2, 1] 7 ''r'' joined = [] \<and>
   Channel_BroadcastTo [4, 3, 2, 1] 7 ''r'' ''x'' [''a''] joined = [] \<and>
   Channel_Amount 1 ''r'' joined = 4 \<and>
   Channel_List [4, 3, 2, 1] 1 ''r'' joined = [Some 4, Some 3, Some 2, Some 1]"
proof -
  have nil: "server (chans joined 7) = None"
    by (simp add: joined_chans scenario_def detached_def)
  have att: "server (chans joined 1) = Some 0"
    by (simp add: joined_chans scenario_def peer_def)
  have a: "Channel_Amount 1 ''r'' joined = 4"
    using att by (simp add: Channel_Amount_def Server_Amount_def joined_r fcard_finsert_if fcard_fempty)
  have l: "Channel_List [4, 3, 2, 1] 1 ''r'' joined = [Some 4, Some 3, Some 2, Some 1]"
    using att by (simp add: Channel_List_def Server_List_def joined_r fcard_finsert_if fcard_fempty numeral_eq_Suc)
  from nil a l detached_queries_silent [OF nil, of "''r''" "[4, 3, 2, 1]" "''x''" "[''a'']"] show ?thesis by simp
qed

subsection \<open>The open sequence\<close>

text \<open>
  C8: when the marshaller returns the text \<open>jsonHdr\<close> for the open header,
  \<open>SendOpenSequence\<close> sends two items on \<open>c.out\<close> and changes nothing else: first
  the frame \<open>0\<close> followed by \<open>jsonHdr\<close>; then, in binary mode, the \<open>MsgPack\<close> of type
  \<open>CONNECT\<close> on the namespace \<open>/\<close> with the sid of the header, and in text mode
  the frame \<open>40\<close> followed by the text \<open>jsonSid\<close> the marshaller returns for the struct
  holding the sid of the header.
\<close>

theorem SendOpenSequence_two_items:
  assumes "Marshal (JsonHeader (header (chans w c))) = Inr jsonHdr"
  shows "(BinaryMessage (tr (servers w s)) \<longrightarrow>
           SendOpenSequence Marshal s c w =
             Inr (w\<lparr>chans := (chans w)(c := (chans w c)\<lparr>out := out (chans w c) @
                    [Frame (''0'' @ jsonHdr),
                     Pack \<lparr>Type = CONNECT, Data = DataSid (Sid (header (chans w c))),
                           Nsp = ''/'', Id' = 0\<rparr>]\<rparr>)\<rparr>)) \<and>
         (\<not> BinaryMessage (tr (servers w s)) \<and>
          Marshal (JsonSid (Sid (header (chans w c)))) = Inr jsonSid \<longrightarrow>
           SendOpenSequence Marshal s c w =
             Inr (w\<lparr>chans := (chans w)(c := (chans w c)\<lparr>out := out (chans w c) @
                    [Frame (''0'' @ jsonHdr), Frame (''40'' @ jsonSid)]\<rparr>)\<rparr>))"
  using assms
  by (simp add: SendOpenSequence_def send_out_def Channel_Id_def OpenMsg_def CommonMsg_def
        DefaultNsp_def Let_def)

theorem SendOpenSequence_S1:
  \<open>(\<exists>w. SendOpenSequence s1_Marshal 0 1 scenario = Inr w \<and>
        out (chans w 1) =
          [Frame ''0{"sid":"A","upgrades":[],"pingInterval":25000,"pingTimeout":20000}'',
           Frame ''40{"sid":"A"}'']) \<and>
   (\<exists>w. SendOpenSequence s1_Marshal 0 1 binary_scenario = Inr w \<and>
        out (chans w 1) =
          [Frame ''0{"sid":"A","upgrades":[],"pingInterval":25000,"pingTimeout":20000}'',
           Pack \<lparr>Type = CONNECT, Data = DataSid ''A'', Nsp = ''/'', Id' = 0\<rparr>])\<close>
proof -
  have hdr: \<open>s1_Marshal (JsonHeader (header (chans scenario 1))) =
      Inr ''{"sid":"A","upgrades":[],"pingInterval":25000,"pingTimeout":20000}''\<close>
    by (simp add: scenario_def peer_def)
  have sid: \<open>s1_Marshal (JsonSid (Sid (header (chans scenario 1)))) = Inr ''{"sid":"A"}''\<close>
    by (simp add: scenario_def peer_def)
  have text_mode: "\<not> BinaryMessage (tr (servers scenario 0))"
    by (simp add: scenario_def NewServer_def)
  have hdr_b: \<open>s1_Marshal (JsonHeader (header (chans binary_scenario 1))) =
      Inr ''{"sid":"A","upgrades":[],"pingInterval":25000,"pingTimeout":20000}''\<close>
    by (simp add: binary_scenario_def scenario_def peer_def)
  have binary_mode: "BinaryMessage (tr (servers binary_scenario 0))"
    by (simp add: binary_scenario_def NewServer_def)
  from hdr sid text_mode
    SendOpenSequence_two_items [where Marshal = s1_Marshal and w = scenario and c = 1 and s = 0
        and jsonHdr = \<open>''{"sid":"A","upgrades":[],"pingInterval":25000,"pingTimeout":20000}''\<close>
        and jsonSid = \<open>''{"sid":"A"}''\<close>]
  have t: \<open>\<exists>w. SendOpenSequence s1_Marshal 0 1 scenario = Inr w \<and>
        out (chans w 1) = out (chans scenario 1) @
          [Frame (''0'' @ ''{"sid":"A","upgrades":[],"pingInterval":25000,"pingTimeout":20000}''),
           Frame (''40'' @ ''{"sid":"A"}'')]\<close>
    by simp
  from hdr_b binary_mode
    SendOpenSequence_two_items [where Marshal = s1_Marshal and w = binary_scenario and c = 1 and s = 0
        and jsonHdr = \<open>''{"sid":"A","upgrades":[],"pingInterval":25000,"pingTimeout":20000}''\<close>]
  have b: \<open>\<exists>w. SendOpenSequence s1_Marshal 0 1 binary_scenario = Inr w \<and>
        out (chans w 1) = out (chans binary_scenario 1) @
          [Frame (''0'' @ ''{"sid":"A","upgrades":[],"pingInterval":25000,"pingTimeout":20000}''),
           Pack \<lparr>Type = CONNECT, Data = DataSid (Sid (header (chans binary_scenario 1))),
                 Nsp = ''/'', Id' = 0\<rparr>]\<close>
    by simp
  from t b show ?thesis
    by (simp add: binary_scenario_def scenario_def peer_def)
qed

subsection \<open>Response headers\<close>

text \<open>
  C9: \<open>EnableCORS(d)\<close> sets the header \<open>Access-Control-Allow-Origin\<close> to \<open>d\<close> and
  \<open>Access-Control-Allow-Credentials\<close> to \<open>true\<close> and changes nothing else, neither
  another header nor anything else of the store; an \<open>AddHeader\<close> after it with
  another name leaves both entries as they are.
\<close>

theorem EnableCORS_two_headers:
  "headers (servers (EnableCORS s d w) s) =
     (headers (servers w s))(''Access-Control-Allow-Origin'' \<mapsto> d,
                             ''Access-Control-Allow-Credentials'' \<mapsto> ''true'') \<and>
   EnableCORS s d w =
     w\<lparr>servers := (servers w)(s := (servers w s)\<lparr>headers := headers (servers (EnableCORS s d w) s)\<rparr>)\<rparr> \<and>
   (name \<noteq> ''Access-Control-Allow-Origin'' \<and> name \<noteq> ''Access-Control-Allow-Credentials'' \<longrightarrow>
      headers (servers (AddHeader s name v (EnableCORS s d w)) s) ''Access-Control-Allow-Origin'' = Some d \<and>
      headers (servers (AddHeader s name v (EnableCORS s d w)) s) ''Access-Control-Allow-Credentials'' = Some ''true'')"
  by (simp add: EnableCORS_def AddHeader_def Let_def)

theorem EnableCORS_star:
  "headers (servers (EnableCORS 0 ''*'' scenario) 0) =
     [''Access-Control-Allow-Origin'' \<mapsto> ''*'', ''Access-Control-Allow-Credentials'' \<mapsto> ''true''] \<and>
   headers (servers (AddHeader 0 ''Server'' ''socketio'' (EnableCORS 0 ''*'' scenario)) 0)
     ''Access-Control-Allow-Origin'' = Some ''*'' \<and>
   headers (servers (AddHeader 0 ''Server'' ''socketio'' (EnableCORS 0 ''*'' scenario)) 0)
     ''Access-Control-Allow-Credentials'' = Some ''true''"
proof -
  have empty: "headers (servers scenario 0) = Map.empty"
    by (simp add: scenario_def NewServer_def)
  from EnableCORS_two_headers [of 0 "''*''" scenario "''Server''" "''socketio''"] empty show ?thesis
    by simp
qed

end
